theory Spec2Isabelle
  imports Main
begin

section \<open>scripts/drop\_tables.py: data\<close>

text \<open>
  The script is a single-threaded command line tool. Everything it does beyond computing
  strings is made explicit here: the process environment, the Trino driver and the
  terminal are a \<open>world\<close> the functions read, and every call that leaves the
  process (connecting, a metadata query, the prompt, a DROP statement, closing) is
  appended to a trace of events that the functions thread through.

  Identifiers and statements are lists of 8-bit characters: the script only tests them
  for a double quote and concatenates them. The answer typed at the prompt goes through
  \<open>str.strip\<close> and \<open>str.lower\<close>, which work on Unicode code points, so an
  answer is a list of code points.
\<close>

datatype py_exception =
    ValueError string
  | DriverError
  | InputError

datatype target = Dev | Prod

text \<open>The namespace returned by \<open>parser.parse_args()\<close>.\<close>

record args =
  arg_target :: target
  arg_schema :: "string option"
  arg_table :: "string option"
  arg_execute :: bool
  arg_api_key :: "string option"
  arg_verbose :: bool

text \<open>
  One dict of the lists the \<open>list_*\<close> functions build:
  keys \<open>schema\<close>, \<open>name\<close> and \<open>type\<close>.
\<close>

record table_entry =
  tbl_schema :: string
  tbl_name :: string
  tbl_type :: string

text \<open>
  The three parameterised metadata queries, with their bound parameters:
  \<open>table_schema like ?\<close>, \<open>table_schema = ?\<close>, and
  \<open>table_schema = ? and table_name = ?\<close>, each with \<open>table_catalog = ?\<close> first.
\<close>

datatype query =
    TablesLike string string
  | TablesInSchema string string
  | TableNamed string string string

text \<open>A Python \<open>str\<close> as the list of its Unicode code points.\<close>

type_synonym ustring = "nat list"

text \<open>
  What \<open>input()\<close> does: it returns the line typed, without its newline, or raises.
  \<open>EOFError\<close> and \<open>KeyboardInterrupt\<close> are the two exceptions \<open>main\<close>
  catches at the prompt; \<open>OtherException\<close> is any other one (a line that does not
  decode, an error of the terminal), which only the outer handler of \<open>main\<close> catches.
\<close>

datatype console = Line ustring | EOFError | KeyboardInterrupt | OtherException

text \<open>
  The calls that leave the process, in the order they happen. \<open>EvDropCall\<close> and
  \<open>EvDropReturn\<close> mark the entry of \<open>drop_table_or_view\<close> (with its schema, table
  name and table type) and the value it returns; \<open>EvExecute\<close> is
  \<open>cursor.execute(drop_statement)\<close>.
\<close>

datatype event =
    EvConnect
  | EvQuery query
  | EvPrompt
  | EvDropCall string string string
  | EvExecute string
  | EvDropReturn bool
  | EvClose

text \<open>
  What the driver does with one DROP statement: \<open>connection.cursor()\<close> stands before
  the \<open>try\<close> of \<open>drop_table_or_view\<close> and \<open>cursor.close()\<close> in its
  \<open>finally\<close>, so an exception of either leaves the function; an exception of
  \<open>cursor.execute\<close> is caught.
\<close>

record driver_outcome =
  cursor_raises :: bool
  execute_raises :: bool
  close_raises :: bool

text \<open>
  The surroundings of one run: the two environment variables, whether
  \<open>trino.dbapi.connect\<close> raises, the answer of the metastore to each metadata query
  (an exception, or the rows \<open>(table_schema, table_name, table_type)\<close> of
  \<open>fetchall\<close>), the behaviour of the driver on a DROP statement given everything
  that happened before, and what the terminal delivers to \<open>input()\<close>.
  \<open>unicode_lower\<close> is the lower-casing of the interpreter's Unicode database for
  strings that are not ASCII; the database is no part of the script.
\<close>

record world =
  env_api_key :: "string option"
  env_team_name :: "string option"
  connect_raises :: bool
  metastore :: "query \<Rightarrow> py_exception + (string \<times> string \<times> string) list"
  driver :: "event list \<Rightarrow> string \<Rightarrow> driver_outcome"
  stdin :: console
  unicode_lower :: "ustring \<Rightarrow> ustring"

record summary =
  total :: int
  success :: int
  failed :: int

section \<open>Strings\<close>

definition dquote :: char where
  "dquote = CHR 0x22"

text \<open>Truth value of an optional string: \<open>None\<close> and \<open>''\<close> are false.\<close>

fun truthy :: "string option \<Rightarrow> bool" where
  "truthy None = False"
| "truthy (Some s) = (s \<noteq> [])"

text \<open>\<open>a or b\<close> on optional strings.\<close>

definition py_or :: "string option \<Rightarrow> string option \<Rightarrow> string option" where
  "py_or a b = (if truthy a then a else b)"

text \<open>The string held by an option that is known to be true.\<close>

fun str_of :: "string option \<Rightarrow> string" where
  "str_of None = []"
| "str_of (Some s) = s"

text \<open>The code points of a string literal of the script.\<close>

definition ustr :: "string \<Rightarrow> ustring" where
  "ustr s = map of_char s"

text \<open>
  The white space of \<open>str.strip()\<close> and \<open>str.isspace()\<close>: the 29 code points
  of Unicode with the property: tab to carriage return, the separators \<open>0x1C\<close> to
  \<open>0x1F\<close>, space, next line, no-break space, the Ogham space mark, the spaces
  \<open>0x2000\<close> to \<open>0x200A\<close>, line and paragraph separator, the narrow no-break
  space, the medium mathematical space and the ideographic space.
\<close>

definition py_isspace :: "nat \<Rightarrow> bool" where
  "py_isspace c =
     (c \<in> set [0x09, 0x0A, 0x0B, 0x0C, 0x0D, 0x1C, 0x1D, 0x1E, 0x1F, 0x20, 0x85, 0xA0,
                0x1680, 0x2000, 0x2001, 0x2002, 0x2003, 0x2004, 0x2005, 0x2006, 0x2007,
                0x2008, 0x2009, 0x200A, 0x2028, 0x2029, 0x202F, 0x205F, 0x3000])"

definition py_strip :: "ustring \<Rightarrow> ustring" where
  "py_strip s = rev (dropWhile py_isspace (rev (dropWhile py_isspace s)))"

text \<open>
  \<open>str.lower()\<close>. On a string of ASCII code points the 26 capital letters change
  and nothing else does; any other string is lower-cased by the Unicode database.
\<close>

definition ascii_lower :: "nat \<Rightarrow> nat" where
  "ascii_lower c = (if 0x41 \<le> c \<and> c \<le> 0x5A then c + 0x20 else c)"

definition py_lower :: "(ustring \<Rightarrow> ustring) \<Rightarrow> ustring \<Rightarrow> ustring" where
  "py_lower database s =
     (if list_all (\<lambda>c. c < 0x80) s then map ascii_lower s else database s)"

section \<open>Quoting and the DROP statement\<close>

definition quote_identifier :: "string \<Rightarrow> py_exception + string" where
  "quote_identifier identifier =
     (if dquote \<in> set identifier
      then Inl (ValueError (''Invalid identifier: contains double quotes: '' @ identifier))
      else Inr ([dquote] @ identifier @ [dquote]))"

text \<open>
  The \<open>try\<close> suite of \<open>drop_table_or_view\<close>: the three identifiers are quoted in the
  order catalog, schema, table, and the statement is built from them.
\<close>

definition build_drop_statement ::
  "string \<Rightarrow> string \<Rightarrow> string \<Rightarrow> string \<Rightarrow> py_exception + string" where
  "build_drop_statement catalog schema table_name table_type =
     (case quote_identifier catalog of
        Inl e \<Rightarrow> Inl e
      | Inr quoted_catalog \<Rightarrow>
     (case quote_identifier schema of
        Inl e \<Rightarrow> Inl e
      | Inr quoted_schema \<Rightarrow>
     (case quote_identifier table_name of
        Inl e \<Rightarrow> Inl e
      | Inr quoted_table \<Rightarrow>
          (if table_type = ''VIEW''
           then Inr (''drop view if exists '' @ quoted_catalog @ ''.'' @ quoted_schema
                     @ ''.'' @ quoted_table)
           else Inr (''drop table if exists '' @ quoted_catalog @ ''.'' @ quoted_schema
                     @ ''.'' @ quoted_table)))))"

section \<open>Dropping\<close>

text \<open>
  \<open>drop_table_or_view\<close>. Only a \<open>ValueError\<close> of the quoting is caught by the first
  \<open>except\<close>. In a dry run the function returns before it asks for a cursor.
\<close>

definition drop_table_or_view ::
  "world \<Rightarrow> string \<Rightarrow> string \<Rightarrow> string \<Rightarrow> string \<Rightarrow> bool \<Rightarrow> event list
     \<Rightarrow> (py_exception + bool) \<times> event list" where
  "drop_table_or_view w schema table_name table_type catalog dry_run log =
     (let log1 = log @ [EvDropCall schema table_name table_type] in
      case build_drop_statement catalog schema table_name table_type of
        Inl (ValueError m) \<Rightarrow> (Inr False, log1 @ [EvDropReturn False])
      | Inl DriverError \<Rightarrow> (Inl DriverError, log1)
      | Inl InputError \<Rightarrow> (Inl InputError, log1)
      | Inr drop_statement \<Rightarrow>
          if dry_run then (Inr True, log1 @ [EvDropReturn True])
          else
            (let out = driver w log1 drop_statement in
             if cursor_raises out then (Inl DriverError, log1)
             else
               (let log2 = log1 @ [EvExecute drop_statement] in
                if close_raises out then (Inl DriverError, log2)
                else if execute_raises out then (Inr False, log2 @ [EvDropReturn False])
                else (Inr True, log2 @ [EvDropReturn True]))))"

text \<open>The \<open>for\<close> loop of \<open>drop_tables\<close>, with its two counters.\<close>

fun drop_loop ::
  "world \<Rightarrow> string \<Rightarrow> bool \<Rightarrow> table_entry list \<Rightarrow> int \<Rightarrow> int \<Rightarrow> event list
     \<Rightarrow> (py_exception + int \<times> int) \<times> event list" where
  "drop_loop w catalog dry_run [] success_count failed_count log =
     (Inr (success_count, failed_count), log)"
| "drop_loop w catalog dry_run (t # ts) success_count failed_count log =
     (case drop_table_or_view w (tbl_schema t) (tbl_name t) (tbl_type t) catalog dry_run log of
        (Inl e, log') \<Rightarrow> (Inl e, log')
      | (Inr ok, log') \<Rightarrow>
          if ok then drop_loop w catalog dry_run ts (success_count + 1) failed_count log'
          else drop_loop w catalog dry_run ts success_count (failed_count + 1) log')"

definition drop_tables ::
  "world \<Rightarrow> table_entry list \<Rightarrow> string \<Rightarrow> bool \<Rightarrow> event list
     \<Rightarrow> (py_exception + summary) \<times> event list" where
  "drop_tables w tables catalog dry_run log =
     (if tables = [] then (Inr \<lparr>total = 0, success = 0, failed = 0\<rparr>, log)
      else
        (case drop_loop w catalog dry_run tables 0 0 log of
           (Inl e, log') \<Rightarrow> (Inl e, log')
         | (Inr (success_count, failed_count), log') \<Rightarrow>
             (Inr \<lparr>total = int (length tables), success = success_count,
                   failed = failed_count\<rparr>, log')))"

section \<open>Listing\<close>

definition row_entry :: "string \<times> string \<times> string \<Rightarrow> table_entry" where
  "row_entry row =
     (case row of (schema_name, table_name, table_type) \<Rightarrow>
        \<lparr>tbl_schema = schema_name, tbl_name = table_name, tbl_type = table_type\<rparr>)"

text \<open>
  The common body of the three \<open>list_*\<close> functions: run the query, turn each row
  into a dict, re-raise any exception.
\<close>

definition run_query ::
  "world \<Rightarrow> query \<Rightarrow> event list \<Rightarrow> (py_exception + table_entry list) \<times> event list" where
  "run_query w q log =
     (case metastore w q of
        Inl e \<Rightarrow> (Inl e, log @ [EvQuery q])
      | Inr results \<Rightarrow> (Inr (map row_entry results), log @ [EvQuery q]))"

definition list_tables_by_pattern ::
  "world \<Rightarrow> string \<Rightarrow> string \<Rightarrow> event list
     \<Rightarrow> (py_exception + table_entry list) \<times> event list" where
  "list_tables_by_pattern w schema_pattern catalog log =
     run_query w (TablesLike catalog schema_pattern) log"

definition list_tables_by_schema ::
  "world \<Rightarrow> string \<Rightarrow> string \<Rightarrow> event list
     \<Rightarrow> (py_exception + table_entry list) \<times> event list" where
  "list_tables_by_schema w schema catalog log =
     run_query w (TablesInSchema catalog schema) log"

definition list_specific_table ::
  "world \<Rightarrow> string \<Rightarrow> string \<Rightarrow> string \<Rightarrow> event list
     \<Rightarrow> (py_exception + table_entry list) \<times> event list" where
  "list_specific_table w schema table_name catalog log =
     run_query w (TableNamed catalog schema table_name) log"

section \<open>main\<close>

text \<open>
  ``Get tables to drop'': the listing \<open>main\<close> chooses. \<open>Inr None\<close> is the early
  \<open>return 0\<close> taken when a specific table is not found.
\<close>

definition get_tables ::
  "world \<Rightarrow> args \<Rightarrow> string \<Rightarrow> bool \<Rightarrow> event list
     \<Rightarrow> (py_exception + table_entry list option) \<times> event list" where
  "get_tables w a schema_or_pattern use_pattern log =
     (if truthy (arg_table a) then
        (case list_specific_table w (str_of (arg_schema a)) (str_of (arg_table a)) ''dune'' log of
           (Inl e, log') \<Rightarrow> (Inl e, log')
         | (Inr tables, log') \<Rightarrow>
             if tables = [] then (Inr None, log') else (Inr (Some tables), log'))
      else if use_pattern then
        (case list_tables_by_pattern w schema_or_pattern ''dune'' log of
           (Inl e, log') \<Rightarrow> (Inl e, log')
         | (Inr tables, log') \<Rightarrow> (Inr (Some tables), log'))
      else
        (case list_tables_by_schema w schema_or_pattern ''dune'' log of
           (Inl e, log') \<Rightarrow> (Inl e, log')
         | (Inr tables, log') \<Rightarrow> (Inr (Some tables), log')))"

text \<open>
  ``Production safety check'': the result is whether \<open>main\<close> goes on to drop.
  The answer is stripped and lower-cased before it is compared with \<open>yes\<close>;
  \<open>EOFError\<close> and \<open>KeyboardInterrupt\<close> cancel; any other exception of
  \<open>input()\<close> passes the inner \<open>except\<close>.
\<close>

definition confirm ::
  "world \<Rightarrow> bool \<Rightarrow> bool \<Rightarrow> table_entry list \<Rightarrow> event list
     \<Rightarrow> (py_exception + bool) \<times> event list" where
  "confirm w is_prod dry_run tables log =
     (if is_prod \<and> \<not> dry_run \<and> tables \<noteq> [] then
        (case stdin w of
           Line answer \<Rightarrow>
             (let response = py_lower (unicode_lower w) (py_strip answer) in
              if response \<noteq> ustr ''yes'' then (Inr False, log @ [EvPrompt])
              else (Inr True, log @ [EvPrompt]))
         | EOFError \<Rightarrow> (Inr False, log @ [EvPrompt])
         | KeyboardInterrupt \<Rightarrow> (Inr False, log @ [EvPrompt])
         | OtherException \<Rightarrow> (Inl InputError, log @ [EvPrompt]))
      else (Inr True, log))"

text \<open>The \<open>try\<close> suite of \<open>main\<close> once the connection is there.\<close>

definition main_connected ::
  "world \<Rightarrow> args \<Rightarrow> bool \<Rightarrow> bool \<Rightarrow> string \<Rightarrow> bool \<Rightarrow> event list
     \<Rightarrow> (py_exception + int) \<times> event list" where
  "main_connected w a dry_run is_prod schema_or_pattern use_pattern log =
     (case get_tables w a schema_or_pattern use_pattern log of
        (Inl e, log1) \<Rightarrow> (Inl e, log1)
      | (Inr None, log1) \<Rightarrow> (Inr 0, log1)
      | (Inr (Some tables), log1) \<Rightarrow>
          (case confirm w is_prod dry_run tables log1 of
             (Inl e, log2) \<Rightarrow> (Inl e, log2)
           | (Inr False, log2) \<Rightarrow> (Inr 0, log2)
           | (Inr True, log2) \<Rightarrow>
               (case drop_tables w tables ''dune'' dry_run log2 of
                  (Inl e, log3) \<Rightarrow> (Inl e, log3)
                | (Inr s, log3) \<Rightarrow> (Inr 0, log3))))"

text \<open>
  The \<open>try\<close> statement of \<open>main\<close>. Without an API key the constructor of
  \<open>DuneTrinoConnection\<close> raises and \<open>dune_conn\<close> stays \<open>None\<close>; when
  \<open>connect\<close> raises, \<open>self.connection\<close> is still \<open>None\<close> and \<open>close\<close> does
  nothing. Any exception gives exit code 1, and the \<open>finally\<close> clause closes an
  established connection.
\<close>

definition main_try ::
  "world \<Rightarrow> args \<Rightarrow> bool \<Rightarrow> bool \<Rightarrow> string \<Rightarrow> bool \<Rightarrow> int \<times> event list" where
  "main_try w a dry_run is_prod schema_or_pattern use_pattern =
     (if \<not> truthy (py_or (arg_api_key a) (env_api_key w)) then (1, [])
      else if connect_raises w then (1, [EvConnect])
      else
        (case main_connected w a dry_run is_prod schema_or_pattern use_pattern [EvConnect] of
           (Inl e, log) \<Rightarrow> (1, log @ [EvClose])
         | (Inr rc, log) \<Rightarrow> (rc, log @ [EvClose])))"

text \<open>\<open>main\<close>: the exit code and the trace of the run.\<close>

definition main :: "world \<Rightarrow> args \<Rightarrow> int \<times> event list" where
  "main w a =
     (let dune_team_name = (case env_team_name w of None \<Rightarrow> ''dune'' | Some t \<Rightarrow> t);
          default_dev_pattern = dune_team_name @ ''__tmp_%'';
          default_prod_schema = dune_team_name;
          dry_run = (\<not> arg_execute a);
          is_prod = (arg_target a = Prod);
          schema_or_pattern =
            (if truthy (arg_schema a) then str_of (arg_schema a)
             else if arg_target a = Prod then default_prod_schema
             else default_dev_pattern);
          use_pattern =
            (if truthy (arg_schema a) then \<not> truthy (arg_table a)
             else if arg_target a = Prod then False
             else True)
      in
        if truthy (arg_table a) \<and> \<not> truthy (arg_schema a) then (1, [])
        else if is_prod \<and> (\<not> truthy (arg_schema a) \<or> \<not> truthy (arg_table a)) then (1, [])
        else main_try w a dry_run is_prod schema_or_pattern use_pattern)"

section \<open>Notions used in the statements\<close>

text \<open>A driver on which no call raises.\<close>

definition ok_driver :: "event list \<Rightarrow> string \<Rightarrow> driver_outcome" where
  "ok_driver log drop_statement =
     \<lparr>cursor_raises = False, execute_raises = False, close_raises = False\<rparr>"

text \<open>The events of \<open>drop_table_or_view\<close>.\<close>

fun is_drop_event :: "event \<Rightarrow> bool" where
  "is_drop_event (EvDropCall s n t) = True"
| "is_drop_event (EvExecute st) = True"
| "is_drop_event (EvDropReturn b) = True"
| "is_drop_event e = False"

fun is_drop_call :: "event \<Rightarrow> bool" where
  "is_drop_call (EvDropCall s n t) = True"
| "is_drop_call e = False"

text \<open>The call of \<open>drop_table_or_view\<close> that the loop makes for one entry.\<close>

definition drop_call_of :: "table_entry \<Rightarrow> event" where
  "drop_call_of t = EvDropCall (tbl_schema t) (tbl_name t) (tbl_type t)"

text \<open>None of the three identifiers of a statement holds a double quote.\<close>

definition valid_identifiers :: "string \<Rightarrow> string \<Rightarrow> string \<Rightarrow> bool" where
  "valid_identifiers catalog schema table_name =
     (dquote \<notin> set catalog \<and> dquote \<notin> set schema \<and> dquote \<notin> set table_name)"

definition is_execute :: "event \<Rightarrow> bool" where
  "is_execute e = (case e of EvExecute st \<Rightarrow> True | _ \<Rightarrow> False)"

text \<open>
  The metadata query issued by the three branches of ``Get tables to drop'', and the one
  \<open>main\<close> issues, with the schema or pattern and the flag it computes first.
\<close>

definition the_query :: "args \<Rightarrow> string \<Rightarrow> bool \<Rightarrow> query" where
  "the_query a sp up =
     (if truthy (arg_table a) then TableNamed ''dune'' (str_of (arg_schema a)) (str_of (arg_table a))
      else if up then TablesLike ''dune'' sp else TablesInSchema ''dune'' sp)"

definition team_name :: "world \<Rightarrow> string" where
  "team_name w = (case env_team_name w of None \<Rightarrow> ''dune'' | Some t \<Rightarrow> t)"

definition main_query :: "world \<Rightarrow> args \<Rightarrow> query" where
  "main_query w a =
     the_query a
       (if truthy (arg_schema a) then str_of (arg_schema a)
        else if arg_target a = Prod then team_name w else team_name w @ ''__tmp_%'')
       (if truthy (arg_schema a) then \<not> truthy (arg_table a)
        else if arg_target a = Prod then False else True)"

text \<open>The two validations of \<open>main\<close> that return 1 before the \<open>try\<close>.\<close>

definition rejected :: "args \<Rightarrow> bool" where
  "rejected a =
     ((truthy (arg_table a) \<and> \<not> truthy (arg_schema a)) \<or>
      (arg_target a = Prod \<and> (\<not> truthy (arg_schema a) \<or> \<not> truthy (arg_table a))))"

text \<open>The test of the answer at the prompt, as \<open>confirm\<close> makes it.\<close>

definition answered_yes :: "world \<Rightarrow> bool" where
  "answered_yes w =
     (case stdin w of
        Line answer \<Rightarrow> py_lower (unicode_lower w) (py_strip answer) = ustr ''yes''
      | _ \<Rightarrow> False)"

text \<open>What one entry adds to the trace in a dry run.\<close>

definition dry_run_events :: "string \<Rightarrow> table_entry \<Rightarrow> event list" where
  "dry_run_events catalog t =
     [EvDropCall (tbl_schema t) (tbl_name t) (tbl_type t),
      EvDropReturn (valid_identifiers catalog (tbl_schema t) (tbl_name t))]"

text \<open>
  A world for concrete runs: an API key in the environment, a connection that
  succeeds, a metastore that answers every query with the given rows, a driver that
  never raises, and the given terminal. The answers of the concrete runs are ASCII once
  stripped, so the Unicode database is not consulted.
\<close>

definition sample_world :: "(string \<times> string \<times> string) list \<Rightarrow> console \<Rightarrow> world" where
  "sample_world rows c =
     \<lparr>env_api_key = Some ''key'', env_team_name = None, connect_raises = False,
      metastore = (\<lambda>q. Inr rows), driver = ok_driver, stdin = c,
      unicode_lower = (\<lambda>s. s)\<rparr>"

text \<open>Arguments and metastore rows for concrete runs.\<close>

definition sample_args :: "target \<Rightarrow> string option \<Rightarrow> string option \<Rightarrow> bool \<Rightarrow> args" where
  "sample_args tgt schema table_name exec =
     \<lparr>arg_target = tgt, arg_schema = schema, arg_table = table_name, arg_execute = exec,
      arg_api_key = None, arg_verbose = False\<rparr>"

definition one_row :: "(string \<times> string \<times> string) list" where
  "one_row = [(''dune'', ''t'', ''BASE TABLE'')]"

text \<open>
  An answer with a no-break space before it, a capital letter and an ideographic space
  after it.
\<close>

definition padded_yes :: ustring where
  "padded_yes = [0xA0] @ ustr ''Yes'' @ [0x3000]"

text \<open>The statement that drops the table of \<open>one_row\<close>.\<close>

definition drop_t :: string where
  "drop_t = ''drop table if exists '' @ [dquote] @ ''dune'' @ [dquote] @ ''.'' @ [dquote]
             @ ''dune'' @ [dquote] @ ''.'' @ [dquote] @ ''t'' @ [dquote]"

text \<open>
  Two entries, the first with a double quote in its name, and the trace their drops
  leave on a driver that never raises.
\<close>

definition two_tables :: "table_entry list" where
  "two_tables =
     [\<lparr>tbl_schema = ''s'', tbl_name = [CHR ''a'', dquote], tbl_type = ''VIEW''\<rparr>,
      \<lparr>tbl_schema = ''s'', tbl_name = ''b'', tbl_type = ''BASE TABLE''\<rparr>]"

definition two_tables_trace :: "event list" where
  "two_tables_trace =
     [EvDropCall ''s'' [CHR ''a'', dquote] ''VIEW'', EvDropReturn False,
      EvDropCall ''s'' ''b'' ''BASE TABLE'',
      EvExecute (''drop table if exists '' @ [dquote] @ ''dune'' @ [dquote] @ ''.'' @ [dquote]
                 @ ''s'' @ [dquote] @ ''.'' @ [dquote] @ ''b'' @ [dquote]),
      EvDropReturn True]"

text \<open>
  A driver whose first \<open>execute\<close> raises and whose later ones succeed, and two valid
  entries with the trace their drops leave on it.
\<close>

definition first_fails_driver :: "event list \<Rightarrow> string \<Rightarrow> driver_outcome" where
  "first_fails_driver log drop_statement =
     \<lparr>cursor_raises = False, execute_raises = list_all (\<lambda>e. \<not> is_execute e) log,
      close_raises = False\<rparr>"

definition first_fails_world :: world where
  "first_fails_world = (sample_world [] EOFError)\<lparr>driver := first_fails_driver\<rparr>"

definition ab_tables :: "table_entry list" where
  "ab_tables =
     [\<lparr>tbl_schema = ''s'', tbl_name = ''a'', tbl_type = ''VIEW''\<rparr>,
      \<lparr>tbl_schema = ''s'', tbl_name = ''b'', tbl_type = ''BASE TABLE''\<rparr>]"

definition ab_trace :: "event list" where
  "ab_trace =
     [EvDropCall ''s'' ''a'' ''VIEW'',
      EvExecute (''drop view if exists '' @ [dquote] @ ''dune'' @ [dquote] @ ''.'' @ [dquote]
                 @ ''s'' @ [dquote] @ ''.'' @ [dquote] @ ''a'' @ [dquote]),
      EvDropReturn False,
      EvDropCall ''s'' ''b'' ''BASE TABLE'',
      EvExecute (''drop table if exists '' @ [dquote] @ ''dune'' @ [dquote] @ ''.'' @ [dquote]
                 @ ''s'' @ [dquote] @ ''.'' @ [dquote] @ ''b'' @ [dquote]),
      EvDropReturn True]"

section \<open>Quoting, statements and single drops\<close>

lemma quote_identifier_Inl:
  "(\<exists>m. quote_identifier i = Inl (ValueError m)) = (dquote \<in> set i)"
  by (simp add: quote_identifier_def)

lemma quote_identifier_Inr:
  "dquote \<notin> set i \<Longrightarrow> quote_identifier i = Inr ([dquote] @ i @ [dquote])"
  by (simp add: quote_identifier_def)

lemma build_invalid:
  "\<not> valid_identifiers catalog schema table_name \<Longrightarrow>
     \<exists>m. build_drop_statement catalog schema table_name table_type = Inl (ValueError m)"
  by (auto simp: build_drop_statement_def quote_identifier_def valid_identifiers_def)

lemma build_valid:
  "valid_identifiers catalog schema table_name \<Longrightarrow>
     build_drop_statement catalog schema table_name table_type =
       Inr ((if table_type = ''VIEW'' then ''drop view if exists '' else ''drop table if exists '')
            @ [dquote] @ catalog @ [dquote] @ ''.'' @ [dquote] @ schema @ [dquote] @ ''.''
            @ [dquote] @ table_name @ [dquote])"
  by (simp add: build_drop_statement_def quote_identifier_def valid_identifiers_def)

lemma dtov_invalid:
  "\<not> valid_identifiers catalog schema table_name \<Longrightarrow>
   drop_table_or_view w schema table_name table_type catalog dry_run log =
     (Inr False, log @ [EvDropCall schema table_name table_type, EvDropReturn False])"
  using build_invalid[of catalog schema table_name table_type]
  by (auto simp: drop_table_or_view_def)

lemma dtov_dry:
  "valid_identifiers catalog schema table_name \<Longrightarrow>
   drop_table_or_view w schema table_name table_type catalog True log =
     (Inr True, log @ [EvDropCall schema table_name table_type, EvDropReturn True])"
  by (simp add: drop_table_or_view_def build_valid)

lemma dtov_total:
  "dry_run \<or> (\<forall>l st. \<not> cursor_raises (driver w l st) \<and> \<not> close_raises (driver w l st)) \<Longrightarrow>
  \<exists>ok log'. drop_table_or_view w schema table_name table_type catalog dry_run log = (Inr ok, log')"
  using build_invalid[of catalog schema table_name table_type]
  by (cases "valid_identifiers catalog schema table_name")
     (auto simp: drop_table_or_view_def Let_def build_valid)

lemma dtov_any:
  "drop_table_or_view w schema table_name table_type catalog dry_run log = (r, log') \<Longrightarrow>
   \<exists>new. log' = log @ new \<and> (\<forall>e \<in> set new. is_drop_event e)
      \<and> (dry_run \<longrightarrow> (\<forall>e \<in> set new. \<not> is_execute e))"
  by (auto simp: drop_table_or_view_def Let_def is_execute_def
      split: sum.splits py_exception.splits if_splits)

lemma dtov_return:
  "drop_table_or_view w schema table_name table_type catalog dry_run log = (Inr ok, log') \<Longrightarrow>
   \<exists>new. log' = log @ new
      \<and> filter is_drop_call new = [EvDropCall schema table_name table_type]
      \<and> filter (\<lambda>e. e = EvDropReturn False) new = (if ok then [] else [EvDropReturn False])
      \<and> filter (\<lambda>e. e = EvDropReturn True) new = (if ok then [EvDropReturn True] else [])"
  by (auto simp: drop_table_or_view_def Let_def
      split: sum.splits py_exception.splits if_splits)

section \<open>The loop of drop\_tables\<close>

lemma loop_any:
  "drop_loop w catalog dry_run ts sc fc log = (r, log') \<Longrightarrow>
   \<exists>new. log' = log @ new \<and> (\<forall>e \<in> set new. is_drop_event e)
      \<and> (dry_run \<longrightarrow> (\<forall>e \<in> set new. \<not> is_execute e))"
proof (induction ts arbitrary: sc fc log)
  case Nil
  then show ?case by simp
next
  case (Cons t ts)
  obtain r1 log1 where
    h: "drop_table_or_view w (tbl_schema t) (tbl_name t) (tbl_type t) catalog dry_run log = (r1, log1)"
    by (cases "drop_table_or_view w (tbl_schema t) (tbl_name t) (tbl_type t) catalog dry_run log")
  from dtov_any[OF h] obtain new1 where
    n1: "log1 = log @ new1" "\<forall>e \<in> set new1. is_drop_event e"
        "dry_run \<longrightarrow> (\<forall>e \<in> set new1. \<not> is_execute e)"
    by blast
  show ?case
  proof (cases r1)
    case (Inl e)
    with Cons.prems h have "log' = log1" by simp
    with n1 show ?thesis by blast
  next
    case (Inr ok)
    with Cons.prems h have
      "\<exists>sc1 fc1. drop_loop w catalog dry_run ts sc1 fc1 log1 = (r, log')"
      by (auto split: if_splits)
    then obtain sc1 fc1 where "drop_loop w catalog dry_run ts sc1 fc1 log1 = (r, log')"
      by blast
    from Cons.IH[OF this] obtain new2 where
      n2: "log' = log1 @ new2" "\<forall>e \<in> set new2. is_drop_event e"
          "dry_run \<longrightarrow> (\<forall>e \<in> set new2. \<not> is_execute e)"
      by blast
    have "log' = log @ (new1 @ new2)" using n1(1) n2(1) by simp
    moreover have "\<forall>e \<in> set (new1 @ new2). is_drop_event e" using n1(2) n2(2) by auto
    moreover have "dry_run \<longrightarrow> (\<forall>e \<in> set (new1 @ new2). \<not> is_execute e)"
      using n1(3) n2(3) by auto
    ultimately show ?thesis by blast
  qed
qed

lemma loop_return:
  "drop_loop w catalog dry_run ts sc fc log = (Inr (sc', fc'), log') \<Longrightarrow>
   \<exists>new. log' = log @ new
      \<and> filter is_drop_call new = map drop_call_of ts
      \<and> fc' = fc + int (length (filter (\<lambda>e. e = EvDropReturn False) new))
      \<and> sc' = sc + int (length (filter (\<lambda>e. e = EvDropReturn True) new))"
proof (induction ts arbitrary: sc fc log)
  case Nil
  then show ?case by simp
next
  case (Cons t ts)
  obtain r1 log1 where
    h: "drop_table_or_view w (tbl_schema t) (tbl_name t) (tbl_type t) catalog dry_run log = (r1, log1)"
    by (cases "drop_table_or_view w (tbl_schema t) (tbl_name t) (tbl_type t) catalog dry_run log")
  from Cons.prems h obtain ok where ok: "r1 = Inr ok"
    by (cases r1) auto
  from dtov_return[OF h[unfolded ok]] obtain new1 where
    n1: "log1 = log @ new1"
        "filter is_drop_call new1 = [EvDropCall (tbl_schema t) (tbl_name t) (tbl_type t)]"
        "filter (\<lambda>e. e = EvDropReturn False) new1 = (if ok then [] else [EvDropReturn False])"
        "filter (\<lambda>e. e = EvDropReturn True) new1 = (if ok then [EvDropReturn True] else [])"
    by blast
  let ?sc1 = "if ok then sc + 1 else sc"
  let ?fc1 = "if ok then fc else fc + 1"
  from Cons.prems h ok have
    "drop_loop w catalog dry_run ts ?sc1 ?fc1 log1 = (Inr (sc', fc'), log')"
    by (auto split: if_splits)
  from Cons.IH[OF this] obtain new2 where
    n2: "log' = log1 @ new2"
        "filter is_drop_call new2 = map drop_call_of ts"
        "fc' = ?fc1 + int (length (filter (\<lambda>e. e = EvDropReturn False) new2))"
        "sc' = ?sc1 + int (length (filter (\<lambda>e. e = EvDropReturn True) new2))"
    by blast
  have "log' = log @ (new1 @ new2)" using n1(1) n2(1) by simp
  moreover have "filter is_drop_call (new1 @ new2) = map drop_call_of (t # ts)"
    using n1(2) n2(2) by (simp add: drop_call_of_def)
  moreover have "fc' = fc + int (length (filter (\<lambda>e. e = EvDropReturn False) (new1 @ new2)))"
    using n1(3) n2(3) by simp
  moreover have "sc' = sc + int (length (filter (\<lambda>e. e = EvDropReturn True) (new1 @ new2)))"
    using n1(4) n2(4) by simp
  ultimately show ?case by blast
qed

lemma loop_counts:
  "drop_loop w catalog dry_run ts sc fc log = (Inr (sc', fc'), log') \<Longrightarrow>
   sc' + fc' = sc + fc + int (length ts)"
proof (induction ts arbitrary: sc fc log)
  case Nil
  then show ?case by simp
next
  case (Cons t ts)
  then show ?case
    by (fastforce split: prod.splits sum.splits if_splits)
qed

lemma loop_total:
  "dry_run \<or> (\<forall>l st. \<not> cursor_raises (driver w l st) \<and> \<not> close_raises (driver w l st)) \<Longrightarrow>
   \<exists>sc' fc' log'. drop_loop w catalog dry_run ts sc fc log = (Inr (sc', fc'), log')"
proof (induction ts arbitrary: sc fc log)
  case Nil
  then show ?case by simp
next
  case (Cons t ts)
  from dtov_total[OF Cons.prems] obtain ok log1 where
    h: "drop_table_or_view w (tbl_schema t) (tbl_name t) (tbl_type t) catalog dry_run log = (Inr ok, log1)"
    by blast
  show ?case using h Cons.IH[OF Cons.prems] by simp
qed

lemma drop_tables_any:
  assumes "drop_tables w ts catalog dry_run log = (r, log')"
  shows "\<exists>new. log' = log @ new \<and> (\<forall>e \<in> set new. is_drop_event e)
      \<and> (dry_run \<longrightarrow> (\<forall>e \<in> set new. \<not> is_execute e))"
proof (cases "ts = []")
  case True
  with assms show ?thesis by (simp add: drop_tables_def)
next
  case False
  obtain r1 log1 where h: "drop_loop w catalog dry_run ts 0 0 log = (r1, log1)"
    by (cases "drop_loop w catalog dry_run ts 0 0 log")
  with assms have "log' = log1" using False
    by (auto simp: drop_tables_def split: sum.splits)
  then show ?thesis using loop_any[OF h] by simp
qed

section \<open>The shape of a run of main\<close>

lemma get_tables_eq:
  "get_tables w a sp up log =
     (case metastore w (the_query a sp up) of
        Inl e \<Rightarrow> (Inl e, log @ [EvQuery (the_query a sp up)])
      | Inr rows \<Rightarrow>
          (if truthy (arg_table a) \<and> rows = [] then Inr None else Inr (Some (map row_entry rows)),
           log @ [EvQuery (the_query a sp up)]))"
  by (simp add: get_tables_def the_query_def list_specific_table_def list_tables_by_pattern_def
      list_tables_by_schema_def run_query_def split: sum.splits)

lemma main_rejected: "rejected a \<Longrightarrow> main w a = (1, [])"
  by (auto simp: main_def rejected_def Let_def)

lemma main_no_key:
  "\<not> rejected a \<Longrightarrow> \<not> truthy (py_or (arg_api_key a) (env_api_key w)) \<Longrightarrow> main w a = (1, [])"
  by (auto simp: main_def main_try_def rejected_def Let_def)

lemma main_no_connection:
  "\<not> rejected a \<Longrightarrow> truthy (py_or (arg_api_key a) (env_api_key w)) \<Longrightarrow> connect_raises w \<Longrightarrow>
   main w a = (1, [EvConnect])"
  by (auto simp: main_def main_try_def rejected_def Let_def)

lemma main_unfold:
  "\<not> rejected a \<Longrightarrow> truthy (py_or (arg_api_key a) (env_api_key w)) \<Longrightarrow> \<not> connect_raises w \<Longrightarrow>
   main w a =
     (case main_connected w a (\<not> arg_execute a) (arg_target a = Prod)
             (if truthy (arg_schema a) then str_of (arg_schema a)
              else if arg_target a = Prod then team_name w else team_name w @ ''__tmp_%'')
             (if truthy (arg_schema a) then \<not> truthy (arg_table a)
              else if arg_target a = Prod then False else True) [EvConnect] of
        (Inl e, log) \<Rightarrow> (1, log @ [EvClose])
      | (Inr rc, log) \<Rightarrow> (rc, log @ [EvClose]))"
  by (auto simp: main_def main_try_def rejected_def team_name_def Let_def)

lemma main_connected_unfold:
  "main_connected w a dry_run is_prod sp up log =
     (case metastore w (the_query a sp up) of
        Inl e \<Rightarrow> (Inl e, log @ [EvQuery (the_query a sp up)])
      | Inr rows \<Rightarrow>
          if truthy (arg_table a) \<and> rows = []
          then (Inr 0, log @ [EvQuery (the_query a sp up)])
          else
            (case confirm w is_prod dry_run (map row_entry rows)
                    (log @ [EvQuery (the_query a sp up)]) of
               (Inl e, log2) \<Rightarrow> (Inl e, log2)
             | (Inr False, log2) \<Rightarrow> (Inr 0, log2)
             | (Inr True, log2) \<Rightarrow>
                 (case drop_tables w (map row_entry rows) ''dune'' dry_run log2 of
                    (Inl e, log3) \<Rightarrow> (Inl e, log3)
                  | (Inr s, log3) \<Rightarrow> (Inr 0, log3))))"
proof (cases "metastore w (the_query a sp up)")
  case (Inl e)
  then show ?thesis by (simp add: main_connected_def get_tables_eq)
next
  case (Inr rows)
  then show ?thesis by (simp add: main_connected_def get_tables_eq)
qed

lemma confirm_eq:
  "confirm w is_prod dry_run ts log =
     (if is_prod \<and> \<not> dry_run \<and> ts \<noteq> [] then
        (if stdin w = OtherException then Inl InputError else Inr (answered_yes w),
         log @ [EvPrompt])
      else (Inr True, log))"
  by (simp add: confirm_def answered_yes_def Let_def split: console.splits)

lemma main_shape:
  "main w a = (1, []) \<or> main w a = (1, [EvConnect]) \<or>
   (main w a = (1, [EvConnect, EvQuery (main_query w a), EvClose]) \<and>
      (\<exists>e. metastore w (main_query w a) = Inl e)) \<or>
   (main w a = (0, [EvConnect, EvQuery (main_query w a), EvClose]) \<and>
      metastore w (main_query w a) = Inr [] \<and> truthy (arg_table a)) \<or>
   (main w a = (0, [EvConnect, EvQuery (main_query w a), EvPrompt, EvClose]) \<and>
      arg_target a = Prod \<and> arg_execute a \<and> \<not> answered_yes w \<and>
      stdin w \<noteq> OtherException \<and>
      (\<exists>rows. metastore w (main_query w a) = Inr rows \<and> rows \<noteq> [])) \<or>
   (main w a = (1, [EvConnect, EvQuery (main_query w a), EvPrompt, EvClose]) \<and>
      arg_target a = Prod \<and> arg_execute a \<and> stdin w = OtherException \<and>
      (\<exists>rows. metastore w (main_query w a) = Inr rows \<and> rows \<noteq> [])) \<or>
   (\<exists>rc new. main w a = (rc, [EvConnect, EvQuery (main_query w a), EvPrompt] @ new @ [EvClose]) \<and>
      (\<forall>e \<in> set new. is_drop_event e) \<and>
      arg_target a = Prod \<and> arg_execute a \<and> answered_yes w \<and>
      (\<exists>rows. metastore w (main_query w a) = Inr rows \<and> rows \<noteq> [])) \<or>
   (\<exists>rc new rows. main w a = (rc, [EvConnect, EvQuery (main_query w a)] @ new @ [EvClose]) \<and>
      (\<forall>e \<in> set new. is_drop_event e) \<and>
      (\<not> arg_execute a \<longrightarrow> (\<forall>e \<in> set new. \<not> is_execute e)) \<and>
      metastore w (main_query w a) = Inr rows \<and>
      \<not> (truthy (arg_table a) \<and> rows = []) \<and>
      \<not> (arg_target a = Prod \<and> arg_execute a \<and> rows \<noteq> []))"
proof (cases "rejected a \<or> \<not> truthy (py_or (arg_api_key a) (env_api_key w)) \<or> connect_raises w")
  case True
  then show ?thesis
    using main_rejected[of a w] main_no_key[of a w] main_no_connection[of a w] by blast
next
  case False
  then have ok: "\<not> rejected a" "truthy (py_or (arg_api_key a) (env_api_key w))"
    "\<not> connect_raises w" by auto
  let ?q = "main_query w a"
  note mu = main_unfold[OF ok, unfolded main_connected_unfold, folded main_query_def]
  show ?thesis
  proof (cases "metastore w ?q")
    case (Inl e)
    then have "main w a = (1, [EvConnect, EvQuery ?q, EvClose])"
      using mu by simp
    with Inl show ?thesis by simp
  next
    case (Inr rows)
    show ?thesis
    proof (cases "truthy (arg_table a) \<and> rows = []")
      case True
      then have "main w a = (0, [EvConnect, EvQuery ?q, EvClose])"
        using mu Inr by simp
      with True Inr show ?thesis by simp
    next
      case nf: False
      let ?ts = "map row_entry rows"
      show ?thesis
      proof (cases "arg_target a = Prod \<and> arg_execute a \<and> rows \<noteq> []")
        case p: True
        show ?thesis
        proof (cases "answered_yes w")
          case False
          show ?thesis
          proof (cases "stdin w = OtherException")
            case True
            then have "main w a = (1, [EvConnect, EvQuery ?q, EvPrompt, EvClose])"
              using mu Inr nf p by (simp add: confirm_eq)
            with True p Inr show ?thesis by simp
          next
            case o: False
            then have "main w a = (0, [EvConnect, EvQuery ?q, EvPrompt, EvClose])"
              using mu Inr nf p \<open>\<not> answered_yes w\<close> by (simp add: confirm_eq)
            with o \<open>\<not> answered_yes w\<close> p Inr show ?thesis by simp
          qed
        next
          case y: True
          then have o: "stdin w \<noteq> OtherException"
            by (auto simp: answered_yes_def)
          obtain r3 log3 where
            d: "drop_tables w ?ts ''dune'' (\<not> arg_execute a) [EvConnect, EvQuery ?q, EvPrompt] = (r3, log3)"
            by (cases "drop_tables w ?ts ''dune'' (\<not> arg_execute a) [EvConnect, EvQuery ?q, EvPrompt]")
          from drop_tables_any[OF d] obtain new where
            n: "log3 = [EvConnect, EvQuery ?q, EvPrompt] @ new" "\<forall>e \<in> set new. is_drop_event e"
            by blast
          have "main w a = ((case r3 of Inl e \<Rightarrow> 1 | Inr s \<Rightarrow> 0), log3 @ [EvClose])"
            using mu Inr nf p y o d by (simp add: confirm_eq split: sum.splits)
          then have "\<exists>rc. main w a = (rc, [EvConnect, EvQuery ?q, EvPrompt] @ new @ [EvClose])"
            using n(1) by simp
          with n(2) p y Inr show ?thesis by blast
        qed
      next
        case np: False
        obtain r3 log3 where
          d: "drop_tables w ?ts ''dune'' (\<not> arg_execute a) [EvConnect, EvQuery ?q] = (r3, log3)"
          by (cases "drop_tables w ?ts ''dune'' (\<not> arg_execute a) [EvConnect, EvQuery ?q]")
        from drop_tables_any[OF d] obtain new where
          n: "log3 = [EvConnect, EvQuery ?q] @ new" "\<forall>e \<in> set new. is_drop_event e"
             "\<not> arg_execute a \<longrightarrow> (\<forall>e \<in> set new. \<not> is_execute e)"
          by blast
        have "main w a = ((case r3 of Inl e \<Rightarrow> 1 | Inr s \<Rightarrow> 0), log3 @ [EvClose])"
          using mu Inr nf np d by (auto simp: confirm_eq split: sum.splits)
        then have "\<exists>rc. main w a = (rc, [EvConnect, EvQuery ?q] @ new @ [EvClose])"
          using n(1) by simp
        with n(2,3) np nf Inr show ?thesis by blast
      qed
    qed
  qed
qed

lemma dtov_dry_eq:
  "drop_table_or_view w schema table_name table_type catalog True log =
     (Inr (valid_identifiers catalog schema table_name),
      log @ [EvDropCall schema table_name table_type,
             EvDropReturn (valid_identifiers catalog schema table_name)])"
  by (cases "valid_identifiers catalog schema table_name") (simp_all add: dtov_dry dtov_invalid)

lemma loop_dry:
  "\<exists>sc' fc'. drop_loop w catalog True ts sc fc log =
     (Inr (sc', fc'), log @ concat (map (dry_run_events catalog) ts))"
proof (induction ts arbitrary: sc fc log)
  case Nil
  then show ?case by simp
next
  case (Cons t ts)
  show ?case
  proof (cases "valid_identifiers catalog (tbl_schema t) (tbl_name t)")
    case True
    then show ?thesis
      using Cons.IH[of "sc + 1" fc "log @ dry_run_events catalog t"]
      by (simp add: dtov_dry_eq dry_run_events_def)
  next
    case False
    then show ?thesis
      using Cons.IH[of sc "fc + 1" "log @ dry_run_events catalog t"]
      by (simp add: dtov_dry_eq dry_run_events_def)
  qed
qed

lemma drop_tables_dry:
  "\<exists>s. drop_tables w ts catalog True log =
     (Inr s, log @ concat (map (dry_run_events catalog) ts))"
proof (cases "ts = []")
  case True
  then show ?thesis by (simp add: drop_tables_def)
next
  case False
  from loop_dry[of w catalog ts 0 0 log] obtain sc' fc' where
    "drop_loop w catalog True ts 0 0 log =
       (Inr (sc', fc'), log @ concat (map (dry_run_events catalog) ts))"
    by blast
  with False show ?thesis by (simp add: drop_tables_def)
qed

lemma main_succeeds_cases:
  "main w a = (1, []) \<or> main w a = (1, [EvConnect]) \<or>
   (\<not> rejected a \<and> truthy (py_or (arg_api_key a) (env_api_key w)) \<and> \<not> connect_raises w)"
  using main_rejected[of a w] main_no_key[of a w] main_no_connection[of a w] by blast

lemma not_drop_event_notin:
  "\<forall>e \<in> set new. is_drop_event e \<Longrightarrow> \<not> is_drop_event x \<Longrightarrow> x \<notin> set new"
  by blast

lemma main_query_unique:
  assumes q: "EvQuery q \<in> set (snd (main w a))"
  shows "q = main_query w a"
proof -
  have nq: "\<And>new. \<forall>e \<in> set new. is_drop_event e \<Longrightarrow> EvQuery q \<notin> set new"
    by (rule not_drop_event_notin) simp_all
  from main_shape[of w a] q show ?thesis
    by (elim disjE exE conjE) (use nq in auto)
qed

lemma main_dry_run:
  assumes dry: "\<not> arg_execute a"
    and q: "EvQuery q \<in> set (snd (main w a))"
    and rows: "metastore w q = Inr rows"
  shows "main w a =
     (0, [EvConnect, EvQuery q] @ concat (map (dry_run_events ''dune'') (map row_entry rows))
         @ [EvClose])"
proof -
  from q main_succeeds_cases[of w a] have
    ok: "\<not> rejected a" "truthy (py_or (arg_api_key a) (env_api_key w))" "\<not> connect_raises w"
    by auto
  note mu = main_unfold[OF ok, unfolded main_connected_unfold, folded main_query_def]
  from q have qq: "q = main_query w a" by (rule main_query_unique)
  let ?ts = "map row_entry rows"
  from drop_tables_dry[of w ?ts "''dune''" "[EvConnect, EvQuery q]"] obtain s where
    d: "drop_tables w ?ts ''dune'' True [EvConnect, EvQuery q] =
          (Inr s, [EvConnect, EvQuery q] @ concat (map (dry_run_events ''dune'') ?ts))"
    by blast
  show ?thesis
  proof (cases "truthy (arg_table a) \<and> rows = []")
    case True
    then show ?thesis using mu rows qq by simp
  next
    case False
    then show ?thesis using mu rows qq dry d by (auto simp: confirm_eq)
  qed
qed

lemma answered_yes_not_other: "answered_yes w \<Longrightarrow> stdin w \<noteq> OtherException"
  by (auto simp: answered_yes_def)

lemma prompt_shown:
  assumes p: "EvPrompt \<in> set (snd (main w a))"
  shows "arg_target a = Prod \<and> arg_execute a \<and>
     EvQuery (main_query w a) \<in> set (snd (main w a)) \<and>
     (\<exists>rows. metastore w (main_query w a) = Inr rows \<and> rows \<noteq> []) \<and>
     (\<not> answered_yes w \<and> stdin w \<noteq> OtherException \<longrightarrow>
        main w a = (0, [EvConnect, EvQuery (main_query w a), EvPrompt, EvClose])) \<and>
     (stdin w = OtherException \<longrightarrow>
        main w a = (1, [EvConnect, EvQuery (main_query w a), EvPrompt, EvClose])) \<and>
     (answered_yes w \<longrightarrow>
        (\<exists>rc new. main w a =
           (rc, [EvConnect, EvQuery (main_query w a), EvPrompt] @ new @ [EvClose])))"
proof -
  have np: "\<And>new. \<forall>e \<in> set new. is_drop_event e \<Longrightarrow> EvPrompt \<notin> set new"
    by (rule not_drop_event_notin) simp_all
  from main_shape[of w a] p show ?thesis
    by (elim disjE exE conjE) (use np in \<open>auto dest: answered_yes_not_other\<close>)
qed

lemma main_empty_listing:
  assumes q: "EvQuery q \<in> set (snd (main w a))" and e: "metastore w q = Inr []"
  shows "main w a = (0, [EvConnect, EvQuery q, EvClose])"
proof -
  from q have qq: "q = main_query w a" by (rule main_query_unique)
  from q main_succeeds_cases[of w a] have
    ok: "\<not> rejected a" "truthy (py_or (arg_api_key a) (env_api_key w))" "\<not> connect_raises w"
    by auto
  note mu = main_unfold[OF ok, unfolded main_connected_unfold, folded main_query_def]
  from mu e qq show ?thesis by (simp add: confirm_eq drop_tables_def)
qed

lemma dry_run_no_execute:
  assumes d: "\<not> arg_execute a"
  shows "\<forall>e \<in> set (snd (main w a)). \<not> is_execute e"
proof -
  from main_shape[of w a] d show ?thesis
    by (elim disjE exE conjE) (auto simp: is_execute_def)
qed

lemma main_closes:
  assumes ok: "\<not> rejected a" "truthy (py_or (arg_api_key a) (env_api_key w))" "\<not> connect_raises w"
  shows "\<exists>rc log. main w a = (rc, log @ [EvClose])"
  unfolding main_unfold[OF ok] by (auto split: prod.splits sum.splits)

lemma main_issues_query:
  assumes ok: "\<not> rejected a" "truthy (py_or (arg_api_key a) (env_api_key w))" "\<not> connect_raises w"
  shows "EvQuery (main_query w a) \<in> set (snd (main w a))"
proof -
  from main_closes[OF ok] have "main w a \<noteq> (1, [])" "main w a \<noteq> (1, [EvConnect])"
    by auto
  with main_shape[of w a] show ?thesis
    by (elim disjE exE conjE) auto
qed

lemma dtov_call:
  "drop_table_or_view w schema table_name table_type catalog dry_run log = (r, log') \<Longrightarrow>
   EvDropCall schema table_name table_type \<in> set log'"
  by (auto simp: drop_table_or_view_def Let_def
      split: sum.splits py_exception.splits if_splits)

lemma drop_tables_first_call:
  assumes d: "drop_tables w (t # ts) catalog dry_run log = (r, log')"
  shows "EvDropCall (tbl_schema t) (tbl_name t) (tbl_type t) \<in> set log'"
proof -
  obtain r1 log1 where
    h: "drop_table_or_view w (tbl_schema t) (tbl_name t) (tbl_type t) catalog dry_run log = (r1, log1)"
    by (cases "drop_table_or_view w (tbl_schema t) (tbl_name t) (tbl_type t) catalog dry_run log")
  from dtov_call[OF h] have c: "EvDropCall (tbl_schema t) (tbl_name t) (tbl_type t) \<in> set log1" .
  obtain r2 log2 where l: "drop_loop w catalog dry_run (t # ts) 0 0 log = (r2, log2)"
    by (cases "drop_loop w catalog dry_run (t # ts) 0 0 log")
  with d have e: "log' = log2"
    by (auto simp: drop_tables_def split: sum.splits)
  show ?thesis
  proof (cases r1)
    case (Inl x)
    with h l have "log2 = log1" by simp
    with c e show ?thesis by simp
  next
    case (Inr ok)
    with h l have "\<exists>sc fc. drop_loop w catalog dry_run ts sc fc log1 = (r2, log2)"
      by (auto split: if_splits)
    then obtain sc fc where "drop_loop w catalog dry_run ts sc fc log1 = (r2, log2)" by blast
    from loop_any[OF this] obtain new where "log2 = log1 @ new" by blast
    with c e show ?thesis by simp
  qed
qed

lemma prompt_yes_drops:
  assumes p: "EvPrompt \<in> set (snd (main w a))" and y: "answered_yes w"
  shows "\<exists>schema table_name table_type.
           EvDropCall schema table_name table_type \<in> set (snd (main w a))"
proof -
  from p main_succeeds_cases[of w a] have
    ok: "\<not> rejected a" "truthy (py_or (arg_api_key a) (env_api_key w))" "\<not> connect_raises w"
    by auto
  note mu = main_unfold[OF ok, unfolded main_connected_unfold, folded main_query_def]
  let ?q = "main_query w a"
  from prompt_shown[OF p] obtain rows where
    c: "arg_target a = Prod" "arg_execute a" and
    rows: "metastore w ?q = Inr rows" "rows \<noteq> []"
    by blast
  from rows(2) obtain x xs where x: "rows = x # xs" by (cases rows) auto
  from y have o: "stdin w \<noteq> OtherException" by (auto simp: answered_yes_def)
  let ?ts = "map row_entry rows"
  obtain r3 log3 where
    d: "drop_tables w ?ts ''dune'' False [EvConnect, EvQuery ?q, EvPrompt] = (r3, log3)"
    by (cases "drop_tables w ?ts ''dune'' False [EvConnect, EvQuery ?q, EvPrompt]")
  from mu rows c y o d have "snd (main w a) = log3 @ [EvClose]"
    by (simp add: confirm_eq split: sum.splits)
  moreover from d x have
    "EvDropCall (tbl_schema (row_entry x)) (tbl_name (row_entry x)) (tbl_type (row_entry x))
       \<in> set log3"
    using drop_tables_first_call[of w "row_entry x" "map row_entry xs" "''dune''" False
            "[EvConnect, EvQuery ?q, EvPrompt]" r3 log3]
    by simp
  ultimately show ?thesis by auto
qed

section \<open>Concrete runs\<close>

lemmas run_defs =
  main_def main_try_def main_connected_def get_tables_def list_specific_table_def
  list_tables_by_pattern_def list_tables_by_schema_def run_query_def row_entry_def confirm_def
  drop_tables_def drop_table_or_view_def build_drop_statement_def quote_identifier_def
  py_or_def py_strip_def py_lower_def ascii_lower_def py_isspace_def ustr_def dquote_def
  sample_world_def sample_args_def ok_driver_def one_row_def drop_t_def

lemma two_tables_run:
  "drop_tables (sample_world [] EOFError) two_tables ''dune'' False [] =
     (Inr \<lparr>total = 2, success = 1, failed = 1\<rparr>, two_tables_trace)"
  by (simp add: drop_tables_def two_tables_def two_tables_trace_def drop_table_or_view_def
      build_drop_statement_def quote_identifier_def sample_world_def ok_driver_def dquote_def)

lemma run_prod_no:
  "main (sample_world one_row (Line (ustr ''no''))) (sample_args Prod (Some ''dune'') (Some ''t'') True) =
     (0, [EvConnect, EvQuery (TableNamed ''dune'' ''dune'' ''t''), EvPrompt, EvClose])"
  by (simp add: run_defs)

lemma run_prod_dry:
  "main (sample_world one_row EOFError) (sample_args Prod (Some ''dune'') (Some ''t'') False) =
     (0, [EvConnect, EvQuery (TableNamed ''dune'' ''dune'' ''t''),
          EvDropCall ''dune'' ''t'' ''BASE TABLE'', EvDropReturn True, EvClose])"
  by (simp add: run_defs)

lemma run_prod_not_found:
  "main (sample_world [] EOFError) (sample_args Prod (Some ''dune'') (Some ''t'') True) =
     (0, [EvConnect, EvQuery (TableNamed ''dune'' ''dune'' ''t''), EvClose])"
  by (simp add: run_defs)

lemma ab_tables_run:
  "drop_tables first_fails_world ab_tables ''dune'' False [] =
     (Inr \<lparr>total = 2, success = 1, failed = 1\<rparr>, ab_trace)"
  by (simp add: drop_tables_def ab_tables_def ab_trace_def drop_table_or_view_def
      build_drop_statement_def quote_identifier_def first_fails_world_def sample_world_def
      first_fails_driver_def is_execute_def dquote_def)

lemma run_prod_nbsp_yes:
  "main (sample_world one_row (Line padded_yes))
        (sample_args Prod (Some ''dune'') (Some ''t'') True) =
     (0, [EvConnect, EvQuery (TableNamed ''dune'' ''dune'' ''t''), EvPrompt,
          EvDropCall ''dune'' ''t'' ''BASE TABLE'', EvExecute drop_t, EvDropReturn True, EvClose])"
  by (simp add: run_defs padded_yes_def)

lemma run_prod_eof:
  "main (sample_world one_row EOFError) (sample_args Prod (Some ''dune'') (Some ''t'') True) =
     (0, [EvConnect, EvQuery (TableNamed ''dune'' ''dune'' ''t''), EvPrompt, EvClose])"
  by (simp add: run_defs)

lemma run_prod_input_raises:
  "main (sample_world one_row OtherException)
        (sample_args Prod (Some ''dune'') (Some ''t'') True) =
     (1, [EvConnect, EvQuery (TableNamed ''dune'' ''dune'' ''t''), EvPrompt, EvClose])"
  by (simp add: run_defs)

section \<open>Claims\<close>

text \<open>
  C1, as stated, fails. The answer is stripped of surrounding white space and lower-cased
  before it is compared with \<open>yes\<close>: the answer \<open>YES\<close> is not the string
  \<open>yes\<close>, and after it the table is dropped.
\<close>

theorem confirmation_exactly_yes_counterexample:
  "stdin (sample_world one_row (Line (ustr ''YES''))) = Line (ustr ''YES'') \<and>
   ustr ''YES'' \<noteq> ustr ''yes'' \<and>
   main (sample_world one_row (Line (ustr ''YES'')))
        (sample_args Prod (Some ''dune'') (Some ''t'') True) =
     (0, [EvConnect, EvQuery (TableNamed ''dune'' ''dune'' ''t''), EvPrompt,
          EvDropCall ''dune'' ''t'' ''BASE TABLE'', EvExecute drop_t, EvDropReturn True, EvClose])"
  by (simp add: run_defs)

text \<open>
  C1, amended. When the confirmation prompt is shown and the answer, stripped of Unicode
  white space and lower-cased, is not \<open>yes\<close>, the run is cancelled: the exit code is 0
  and the trace is the connection, the metadata query, the prompt and the closing of the
  connection, with no drop in it. The same holds when no answer arrives (end of input, an
  interrupt). When \<open>input()\<close> raises another exception the trace is the same, with no
  drop, and the exit code is 1. When the answer, stripped and lower-cased, is \<open>yes\<close>,
  \<open>drop_table_or_view\<close> is called.
\<close>

theorem prompt_cancels_unless_yes:
  assumes p: "EvPrompt \<in> set (snd (main w a))"
  shows
   "(stdin w = Line answer \<and> py_lower (unicode_lower w) (py_strip answer) \<noteq> ustr ''yes'' \<longrightarrow>
       (\<exists>q. main w a = (0, [EvConnect, EvQuery q, EvPrompt, EvClose]))) \<and>
    (stdin w = EOFError \<or> stdin w = KeyboardInterrupt \<longrightarrow>
       (\<exists>q. main w a = (0, [EvConnect, EvQuery q, EvPrompt, EvClose]))) \<and>
    (stdin w = OtherException \<longrightarrow>
       (\<exists>q. main w a = (1, [EvConnect, EvQuery q, EvPrompt, EvClose]))) \<and>
    (stdin w = Line answer \<and> py_lower (unicode_lower w) (py_strip answer) = ustr ''yes'' \<longrightarrow>
       (\<exists>schema table_name table_type.
          EvDropCall schema table_name table_type \<in> set (snd (main w a))))"
proof (intro conjI impI)
  assume "stdin w = Line answer \<and> py_lower (unicode_lower w) (py_strip answer) \<noteq> ustr ''yes''"
  then have "\<not> answered_yes w \<and> stdin w \<noteq> OtherException"
    by (simp add: answered_yes_def)
  with prompt_shown[OF p]
  show "\<exists>q. main w a = (0, [EvConnect, EvQuery q, EvPrompt, EvClose])" by blast
next
  assume "stdin w = EOFError \<or> stdin w = KeyboardInterrupt"
  then have "\<not> answered_yes w \<and> stdin w \<noteq> OtherException"
    by (auto simp: answered_yes_def)
  with prompt_shown[OF p]
  show "\<exists>q. main w a = (0, [EvConnect, EvQuery q, EvPrompt, EvClose])" by blast
next
  assume "stdin w = OtherException"
  with prompt_shown[OF p]
  show "\<exists>q. main w a = (1, [EvConnect, EvQuery q, EvPrompt, EvClose])" by blast
next
  assume "stdin w = Line answer \<and> py_lower (unicode_lower w) (py_strip answer) = ustr ''yes''"
  then have "answered_yes w" by (simp add: answered_yes_def)
  with p show "\<exists>schema table_name table_type.
          EvDropCall schema table_name table_type \<in> set (snd (main w a))"
    by (rule prompt_yes_drops)
qed

theorem prompt_cancels_unless_yes_witness:
  "EvPrompt \<in> set (snd (main (sample_world one_row (Line (ustr ''no'')))
                             (sample_args Prod (Some ''dune'') (Some ''t'') True))) \<and>
   stdin (sample_world one_row (Line (ustr ''no''))) = Line (ustr ''no'') \<and>
   py_lower (unicode_lower (sample_world one_row (Line (ustr ''no'')))) (py_strip (ustr ''no''))
     \<noteq> ustr ''yes'' \<and>
   (\<exists>q. main (sample_world one_row (Line (ustr ''no'')))
              (sample_args Prod (Some ''dune'') (Some ''t'') True) =
         (0, [EvConnect, EvQuery q, EvPrompt, EvClose])) \<and>
   EvPrompt \<in> set (snd (main (sample_world one_row EOFError)
                             (sample_args Prod (Some ''dune'') (Some ''t'') True))) \<and>
   stdin (sample_world one_row EOFError) = EOFError \<and>
   (\<exists>q. main (sample_world one_row EOFError)
              (sample_args Prod (Some ''dune'') (Some ''t'') True) =
         (0, [EvConnect, EvQuery q, EvPrompt, EvClose])) \<and>
   EvPrompt \<in> set (snd (main (sample_world one_row OtherException)
                             (sample_args Prod (Some ''dune'') (Some ''t'') True))) \<and>
   stdin (sample_world one_row OtherException) = OtherException \<and>
   (\<exists>q. main (sample_world one_row OtherException)
              (sample_args Prod (Some ''dune'') (Some ''t'') True) =
         (1, [EvConnect, EvQuery q, EvPrompt, EvClose])) \<and>
   EvPrompt \<in> set (snd (main (sample_world one_row (Line padded_yes))
                             (sample_args Prod (Some ''dune'') (Some ''t'') True))) \<and>
   py_lower (unicode_lower (sample_world one_row (Line padded_yes)))
            (py_strip padded_yes) = ustr ''yes'' \<and>
   (\<exists>schema table_name table_type.
      EvDropCall schema table_name table_type
        \<in> set (snd (main (sample_world one_row (Line padded_yes))
                          (sample_args Prod (Some ''dune'') (Some ''t'') True))))"
proof -
  let ?a = "sample_args Prod (Some ''dune'') (Some ''t'') True"
  have p: "EvPrompt \<in> set (snd (main (sample_world one_row (Line (ustr ''no''))) ?a))"
    "EvPrompt \<in> set (snd (main (sample_world one_row EOFError) ?a))"
    "EvPrompt \<in> set (snd (main (sample_world one_row OtherException) ?a))"
    "EvPrompt \<in> set (snd (main (sample_world one_row (Line padded_yes)) ?a))"
    by (simp_all add: run_prod_no run_prod_eof run_prod_input_raises run_prod_nbsp_yes)
  have s: "stdin (sample_world one_row (Line (ustr ''no''))) = Line (ustr ''no'')"
    "stdin (sample_world one_row EOFError) = EOFError"
    "stdin (sample_world one_row OtherException) = OtherException"
    "stdin (sample_world one_row (Line padded_yes)) = Line padded_yes"
    by (simp_all add: sample_world_def)
  have l: "py_lower (unicode_lower (sample_world one_row (Line (ustr ''no''))))
             (py_strip (ustr ''no'')) \<noteq> ustr ''yes''"
    "py_lower (unicode_lower (sample_world one_row (Line padded_yes))) (py_strip padded_yes) = ustr ''yes''"
    by (simp_all add: py_lower_def py_strip_def ascii_lower_def py_isspace_def ustr_def
        padded_yes_def)
  from prompt_cancels_unless_yes[OF p(1), of "ustr ''no''"]
       prompt_cancels_unless_yes[OF p(2), of "ustr ''no''"]
       prompt_cancels_unless_yes[OF p(3), of "ustr ''no''"]
       prompt_cancels_unless_yes[OF p(4), of padded_yes]
       p s l
  show ?thesis by simp
qed

text \<open>
  C2, as stated, fails in its first half. The identifiers are validated before the dry-run
  test, so in a dry run \<open>drop_table_or_view\<close> returns \<open>False\<close> for an entry whose
  name holds a double quote.
\<close>

theorem dry_run_returns_true_counterexample:
  "drop_table_or_view (sample_world [] EOFError) ''s'' [CHR ''a'', dquote] ''VIEW'' ''dune'' True [] =
     (Inr False, [EvDropCall ''s'' [CHR ''a'', dquote] ''VIEW'', EvDropReturn False])"
  by (simp add: drop_table_or_view_def build_drop_statement_def quote_identifier_def dquote_def)

text \<open>
  C2, amended. In a dry run \<open>drop_table_or_view\<close> executes nothing: the trace gains
  the call and its return only, and the value returned is \<open>True\<close> exactly when none of
  the three identifiers holds a double quote. Without \<open>--execute\<close>, no run of
  \<open>main\<close> executes a statement.
\<close>

theorem dry_run_never_executes:
  "drop_table_or_view w schema table_name table_type catalog True log =
     (Inr (valid_identifiers catalog schema table_name),
      log @ [EvDropCall schema table_name table_type,
             EvDropReturn (valid_identifiers catalog schema table_name)]) \<and>
   (\<not> arg_execute a \<longrightarrow> EvExecute st \<notin> set (snd (main w a)))"
proof (rule conjI)
  show "drop_table_or_view w schema table_name table_type catalog True log =
     (Inr (valid_identifiers catalog schema table_name),
      log @ [EvDropCall schema table_name table_type,
             EvDropReturn (valid_identifiers catalog schema table_name)])"
    by (rule dtov_dry_eq)
  show "\<not> arg_execute a \<longrightarrow> EvExecute st \<notin> set (snd (main w a))"
  proof
    assume "\<not> arg_execute a"
    from dry_run_no_execute[OF this, of w] show "EvExecute st \<notin> set (snd (main w a))"
      by (auto simp: is_execute_def)
  qed
qed

theorem dry_run_never_executes_witness:
  "drop_table_or_view (sample_world one_row EOFError) ''dune'' ''t'' ''BASE TABLE'' ''dune'' True [] =
     (Inr True, [EvDropCall ''dune'' ''t'' ''BASE TABLE'', EvDropReturn True]) \<and>
   \<not> arg_execute (sample_args Prod (Some ''dune'') (Some ''t'') False) \<and>
   EvExecute drop_t \<notin> set (snd (main (sample_world one_row EOFError)
                                      (sample_args Prod (Some ''dune'') (Some ''t'') False)))"
  using dry_run_never_executes
          [of "sample_world one_row EOFError" "''dune''" "''t''" "''BASE TABLE''" "''dune''" "[]"
              "sample_args Prod (Some ''dune'') (Some ''t'') False" drop_t]
  by (simp add: valid_identifiers_def dquote_def sample_args_def)

text \<open>
  C3. For the target \<open>prod\<close>, when \<open>--schema\<close> or \<open>--table\<close> is absent,
  \<open>main\<close> returns 1 with an empty trace: before any connection or query.
\<close>

theorem prod_requires_schema_and_table:
  assumes "arg_target a = Prod" and "arg_schema a = None \<or> arg_table a = None"
  shows "main w a = (1, [])"
proof -
  from assms have "rejected a" by (auto simp: rejected_def)
  then show ?thesis by (rule main_rejected)
qed

theorem prod_requires_schema_and_table_witness:
  "arg_target (sample_args Prod (Some ''dune'') None True) = Prod \<and>
   arg_table (sample_args Prod (Some ''dune'') None True) = None \<and>
   main (sample_world one_row (Line (ustr ''yes''))) (sample_args Prod (Some ''dune'') None True) = (1, [])"
proof -
  have h: "arg_target (sample_args Prod (Some ''dune'') None True) = Prod"
    "arg_schema (sample_args Prod (Some ''dune'') None True) = None \<or>
     arg_table (sample_args Prod (Some ''dune'') None True) = None"
    by (simp_all add: sample_args_def)
  from prod_requires_schema_and_table[OF h, of "sample_world one_row (Line (ustr ''yes''))"]
  show ?thesis by (simp add: sample_args_def)
qed

text \<open>
  C4. \<open>quote_identifier\<close> raises a \<open>ValueError\<close> exactly when the identifier
  contains a double quote, and otherwise returns the identifier between double quotes.
  When the catalog, the schema or the table name contains a double quote,
  \<open>drop_table_or_view\<close> builds no statement and returns \<open>False\<close>, and the trace
  gains the call and its return only: nothing is executed.
\<close>

theorem quote_identifier_rejects_double_quote:
  "((\<exists>m. quote_identifier ident = Inl (ValueError m)) \<longleftrightarrow> dquote \<in> set ident) \<and>
   (dquote \<notin> set ident \<longrightarrow> quote_identifier ident = Inr ([dquote] @ ident @ [dquote])) \<and>
   (dquote \<in> set catalog \<or> dquote \<in> set schema \<or> dquote \<in> set table_name \<longrightarrow>
      (\<exists>m. build_drop_statement catalog schema table_name table_type = Inl (ValueError m)) \<and>
      drop_table_or_view w schema table_name table_type catalog dry_run log =
        (Inr False, log @ [EvDropCall schema table_name table_type, EvDropReturn False]))"
proof (intro conjI impI)
  show "(\<exists>m. quote_identifier ident = Inl (ValueError m)) \<longleftrightarrow> dquote \<in> set ident"
    by (rule quote_identifier_Inl)
next
  assume "dquote \<notin> set ident"
  then show "quote_identifier ident = Inr ([dquote] @ ident @ [dquote])"
    by (rule quote_identifier_Inr)
next
  assume "dquote \<in> set catalog \<or> dquote \<in> set schema \<or> dquote \<in> set table_name"
  then have inv: "\<not> valid_identifiers catalog schema table_name"
    by (auto simp: valid_identifiers_def)
  then show "\<exists>m. build_drop_statement catalog schema table_name table_type = Inl (ValueError m)"
    by (rule build_invalid)
  from inv show "drop_table_or_view w schema table_name table_type catalog dry_run log =
        (Inr False, log @ [EvDropCall schema table_name table_type, EvDropReturn False])"
    by (rule dtov_invalid)
qed

theorem quote_identifier_rejects_double_quote_witness:
  "dquote \<in> set [CHR ''a'', dquote] \<and>
   (\<exists>m. quote_identifier [CHR ''a'', dquote] = Inl (ValueError m)) \<and>
   (\<exists>m. build_drop_statement ''dune'' ''s'' [CHR ''a'', dquote] ''VIEW'' = Inl (ValueError m)) \<and>
   drop_table_or_view (sample_world [] EOFError) ''s'' [CHR ''a'', dquote] ''VIEW'' ''dune'' False [] =
     (Inr False, [EvDropCall ''s'' [CHR ''a'', dquote] ''VIEW'', EvDropReturn False]) \<and>
   dquote \<notin> set ''ab'' \<and>
   quote_identifier ''ab'' = Inr [dquote, CHR ''a'', CHR ''b'', dquote]"
  using quote_identifier_rejects_double_quote
          [of "[CHR ''a'', dquote]" "''dune''" "''s''" "[CHR ''a'', dquote]" "''VIEW''"
              "sample_world [] EOFError" False "[]"]
        quote_identifier_rejects_double_quote
          [of "''ab''" "''dune''" "''s''" "''t''" "''VIEW''" "sample_world [] EOFError" False "[]"]
  by (simp add: dquote_def)

text \<open>
  C5. Whenever \<open>drop_tables\<close> returns a summary, \<open>success + failed = total\<close> and
  \<open>total\<close> is the length of the list given, the empty list included. It does return one
  in every dry run, and whenever the driver raises neither on opening nor on closing a
  cursor.
\<close>

theorem drop_tables_summary_adds_up:
  "(drop_tables w tables catalog dry_run log = (Inr s, log') \<longrightarrow>
      success s + failed s = total s \<and> total s = int (length tables)) \<and>
   (dry_run \<or> (\<forall>l st. \<not> cursor_raises (driver w l st) \<and> \<not> close_raises (driver w l st)) \<longrightarrow>
      (\<exists>s log'. drop_tables w tables catalog dry_run log = (Inr s, log')))"
proof (rule conjI; rule impI)
  assume r: "drop_tables w tables catalog dry_run log = (Inr s, log')"
  show "success s + failed s = total s \<and> total s = int (length tables)"
  proof (cases "tables = []")
    case True
    with r show ?thesis by (auto simp: drop_tables_def)
  next
    case False
    with r obtain sc fc where
      l: "drop_loop w catalog dry_run tables 0 0 log = (Inr (sc, fc), log')"
      and s: "s = \<lparr>total = int (length tables), success = sc, failed = fc\<rparr>"
      by (auto simp: drop_tables_def split: prod.splits sum.splits)
    from loop_counts[OF l] s show ?thesis by simp
  qed
next
  assume h: "dry_run \<or> (\<forall>l st. \<not> cursor_raises (driver w l st) \<and> \<not> close_raises (driver w l st))"
  from loop_total[OF h, of catalog tables 0 0 log] obtain sc fc l' where
    "drop_loop w catalog dry_run tables 0 0 log = (Inr (sc, fc), l')"
    by blast
  then show "\<exists>s log'. drop_tables w tables catalog dry_run log = (Inr s, log')"
    by (simp add: drop_tables_def)
qed

theorem drop_tables_summary_adds_up_witness:
  "drop_tables (sample_world [] EOFError) two_tables ''dune'' False [] =
     (Inr \<lparr>total = 2, success = 1, failed = 1\<rparr>, two_tables_trace) \<and>
   success \<lparr>total = 2, success = 1, failed = 1\<rparr> + failed \<lparr>total = 2, success = 1, failed = 1\<rparr>
     = total \<lparr>total = 2, success = 1, failed = 1\<rparr> \<and>
   total \<lparr>total = 2, success = 1, failed = 1\<rparr> = int (length two_tables)"
  using two_tables_run
    drop_tables_summary_adds_up[of "sample_world [] EOFError" two_tables "''dune''" False "[]"
      "\<lparr>total = 2, success = 1, failed = 1\<rparr>" two_tables_trace]
  by simp

text \<open>
  C6. For identifiers without double quotes the statement built is
  \<open>drop view if exists\<close> for the table type \<open>VIEW\<close> and
  \<open>drop table if exists\<close> for every other type, followed by the catalog, the schema
  and the table name, each between double quotes and separated by dots.
\<close>

theorem drop_statement_format:
  assumes "dquote \<notin> set catalog" and "dquote \<notin> set schema" and "dquote \<notin> set table_name"
  shows "build_drop_statement catalog schema table_name table_type =
     Inr ((if table_type = ''VIEW'' then ''drop view if exists '' else ''drop table if exists '')
          @ [dquote] @ catalog @ [dquote] @ ''.'' @ [dquote] @ schema @ [dquote] @ ''.''
          @ [dquote] @ table_name @ [dquote])"
  using assms build_valid[of catalog schema table_name table_type]
  by (simp add: valid_identifiers_def)

theorem drop_statement_format_witness:
  "dquote \<notin> set ''dune'' \<and> dquote \<notin> set ''s'' \<and> dquote \<notin> set ''v'' \<and>
   build_drop_statement ''dune'' ''s'' ''v'' ''VIEW'' =
     Inr (''drop view if exists '' @ [dquote] @ ''dune'' @ [dquote] @ ''.'' @ [dquote] @ ''s''
          @ [dquote] @ ''.'' @ [dquote] @ ''v'' @ [dquote]) \<and>
   build_drop_statement ''dune'' ''s'' ''v'' ''BASE TABLE'' =
     Inr (''drop table if exists '' @ [dquote] @ ''dune'' @ [dquote] @ ''.'' @ [dquote] @ ''s''
          @ [dquote] @ ''.'' @ [dquote] @ ''v'' @ [dquote])"
proof -
  have h: "dquote \<notin> set ''dune''" "dquote \<notin> set ''s''" "dquote \<notin> set ''v''"
    by (simp_all add: dquote_def)
  show ?thesis
    using h drop_statement_format[OF h, of "''VIEW''"] drop_statement_format[OF h, of "''BASE TABLE''"]
    by simp
qed

text \<open>
  C7. Whenever \<open>drop_tables\<close> returns a summary, \<open>drop_table_or_view\<close> was called
  for every entry of the list, in order, whatever the earlier calls returned; \<open>failed\<close>
  is the number of calls that returned \<open>False\<close> and \<open>success\<close> the number that
  returned \<open>True\<close>. A summary is returned whenever the driver raises neither on opening
  nor on closing a cursor, however many statements fail.
\<close>

theorem failed_drop_does_not_stop_loop:
  "(drop_tables w tables catalog dry_run log = (Inr s, log') \<longrightarrow>
      (\<exists>new. log' = log @ new \<and>
         filter is_drop_call new = map drop_call_of tables \<and>
         failed s = int (length (filter (\<lambda>e. e = EvDropReturn False) new)) \<and>
         success s = int (length (filter (\<lambda>e. e = EvDropReturn True) new)))) \<and>
   ((\<forall>l st. \<not> cursor_raises (driver w l st) \<and> \<not> close_raises (driver w l st)) \<longrightarrow>
      (\<exists>s log'. drop_tables w tables catalog dry_run log = (Inr s, log')))"
proof (rule conjI; rule impI)
  assume r: "drop_tables w tables catalog dry_run log = (Inr s, log')"
  show "\<exists>new. log' = log @ new \<and>
         filter is_drop_call new = map drop_call_of tables \<and>
         failed s = int (length (filter (\<lambda>e. e = EvDropReturn False) new)) \<and>
         success s = int (length (filter (\<lambda>e. e = EvDropReturn True) new))"
  proof (cases "tables = []")
    case True
    with r have "log' = log @ []" "failed s = 0" "success s = 0"
      by (auto simp: drop_tables_def)
    with True show ?thesis by auto
  next
    case False
    with r obtain sc fc where
      l: "drop_loop w catalog dry_run tables 0 0 log = (Inr (sc, fc), log')"
      and s: "s = \<lparr>total = int (length tables), success = sc, failed = fc\<rparr>"
      by (auto simp: drop_tables_def split: prod.splits sum.splits)
    from loop_return[OF l] s show ?thesis by simp
  qed
next
  assume h: "\<forall>l st. \<not> cursor_raises (driver w l st) \<and> \<not> close_raises (driver w l st)"
  then have "dry_run \<or> (\<forall>l st. \<not> cursor_raises (driver w l st) \<and> \<not> close_raises (driver w l st))"
    by simp
  from loop_total[OF this, of catalog tables 0 0 log] obtain sc fc l' where
    "drop_loop w catalog dry_run tables 0 0 log = (Inr (sc, fc), l')"
    by blast
  then show "\<exists>s log'. drop_tables w tables catalog dry_run log = (Inr s, log')"
    by (simp add: drop_tables_def)
qed

theorem failed_drop_does_not_stop_loop_witness:
  "drop_tables first_fails_world ab_tables ''dune'' False [] =
     (Inr \<lparr>total = 2, success = 1, failed = 1\<rparr>, ab_trace) \<and>
   filter is_drop_call ab_trace = map drop_call_of ab_tables \<and>
   failed \<lparr>total = 2, success = 1, failed = 1\<rparr>
     = int (length (filter (\<lambda>e. e = EvDropReturn False) ab_trace)) \<and>
   success \<lparr>total = 2, success = 1, failed = 1\<rparr>
     = int (length (filter (\<lambda>e. e = EvDropReturn True) ab_trace))"
proof -
  note run = ab_tables_run
  from failed_drop_does_not_stop_loop
         [of first_fails_world ab_tables "''dune''" False "[]"
             "\<lparr>total = 2, success = 1, failed = 1\<rparr>" ab_trace] run
  show ?thesis by simp
qed

text \<open>
  C8, as stated, fails. The test is the truth value of \<open>args.table\<close>, and the empty
  string is false: with \<open>--table ''\<close> and no \<open>--schema\<close> on the target \<open>dev\<close>,
  \<open>main\<close> connects and goes on with the default pattern.
\<close>

theorem table_without_schema_counterexample:
  "arg_table (sample_args Dev None (Some []) True) \<noteq> None \<and>
   arg_schema (sample_args Dev None (Some []) True) = None \<and>
   main (sample_world one_row EOFError) (sample_args Dev None (Some []) True) =
     (0, [EvConnect, EvQuery (TablesLike ''dune'' ''dune__tmp_%''),
          EvDropCall ''dune'' ''t'' ''BASE TABLE'', EvExecute drop_t, EvDropReturn True, EvClose])"
  by (simp add: run_defs)

text \<open>
  C8, amended. When \<open>--table\<close> is given with a non-empty name and \<open>--schema\<close> is
  absent, \<open>main\<close> returns 1 with an empty trace, for every target.
\<close>

theorem table_without_schema_rejected:
  assumes "arg_table a = Some t" and "t \<noteq> []" and "arg_schema a = None"
  shows "main w a = (1, [])"
proof -
  from assms have "rejected a" by (simp add: rejected_def)
  then show ?thesis by (rule main_rejected)
qed

theorem table_without_schema_rejected_witness:
  "arg_table (sample_args Dev None (Some ''t'') True) = Some ''t'' \<and> ''t'' \<noteq> [] \<and>
   arg_schema (sample_args Dev None (Some ''t'') True) = None \<and>
   main (sample_world one_row EOFError) (sample_args Dev None (Some ''t'') True) = (1, [])"
proof -
  have h: "arg_table (sample_args Dev None (Some ''t'') True) = Some ''t''" "''t'' \<noteq> []"
    "arg_schema (sample_args Dev None (Some ''t'') True) = None"
    by (simp_all add: sample_args_def)
  from table_without_schema_rejected[OF h, of "sample_world one_row EOFError"] h
  show ?thesis by simp
qed

text \<open>
  C9. A run that shows the prompt has the target \<open>prod\<close>, has \<open>--execute\<close>, and
  its metadata query returned a non-empty list. Without \<open>--execute\<close> no prompt is
  shown, and a run whose query returned rows ends with exit code 0 after the dry-run call
  for each row. When the query returned no row, no prompt is shown and the run ends with
  exit code 0 after the query.
\<close>

theorem prompt_only_for_prod_execute_nonempty:
  "(EvPrompt \<in> set (snd (main w a)) \<longrightarrow>
      arg_target a = Prod \<and> arg_execute a \<and>
      (\<exists>q rows. EvQuery q \<in> set (snd (main w a)) \<and> metastore w q = Inr rows \<and> rows \<noteq> [])) \<and>
   (\<not> arg_execute a \<longrightarrow> EvPrompt \<notin> set (snd (main w a))) \<and>
   (\<not> arg_execute a \<and> EvQuery q \<in> set (snd (main w a)) \<and> metastore w q = Inr rows \<longrightarrow>
      main w a =
        (0, [EvConnect, EvQuery q] @ concat (map (dry_run_events ''dune'') (map row_entry rows))
            @ [EvClose])) \<and>
   (EvQuery q \<in> set (snd (main w a)) \<and> metastore w q = Inr [] \<longrightarrow>
      EvPrompt \<notin> set (snd (main w a)) \<and> main w a = (0, [EvConnect, EvQuery q, EvClose]))"
proof (intro conjI impI)
  assume p: "EvPrompt \<in> set (snd (main w a))"
  from prompt_shown[OF p] show "arg_target a = Prod" "arg_execute a"
    "\<exists>q rows. EvQuery q \<in> set (snd (main w a)) \<and> metastore w q = Inr rows \<and> rows \<noteq> []"
    by blast+
next
  assume "\<not> arg_execute a"
  with prompt_shown[of w a] show "EvPrompt \<notin> set (snd (main w a))" by blast
next
  assume "\<not> arg_execute a \<and> EvQuery q \<in> set (snd (main w a)) \<and> metastore w q = Inr rows"
  then show "main w a =
        (0, [EvConnect, EvQuery q] @ concat (map (dry_run_events ''dune'') (map row_entry rows))
            @ [EvClose])"
    using main_dry_run[of a q w rows] by blast
next
  assume h: "EvQuery q \<in> set (snd (main w a)) \<and> metastore w q = Inr []"
  then show m: "main w a = (0, [EvConnect, EvQuery q, EvClose])"
    using main_empty_listing[of q w a] by blast
  then show "EvPrompt \<notin> set (snd (main w a))" by simp
qed

theorem prompt_only_for_prod_execute_nonempty_witness:
  "EvPrompt \<in> set (snd (main (sample_world one_row (Line (ustr ''no'')))
                             (sample_args Prod (Some ''dune'') (Some ''t'') True))) \<and>
   arg_target (sample_args Prod (Some ''dune'') (Some ''t'') True) = Prod \<and>
   arg_execute (sample_args Prod (Some ''dune'') (Some ''t'') True) \<and>
   \<not> arg_execute (sample_args Prod (Some ''dune'') (Some ''t'') False) \<and>
   metastore (sample_world one_row EOFError) (TableNamed ''dune'' ''dune'' ''t'') = Inr one_row \<and>
   EvPrompt \<notin> set (snd (main (sample_world one_row EOFError)
                             (sample_args Prod (Some ''dune'') (Some ''t'') False))) \<and>
   main (sample_world one_row EOFError) (sample_args Prod (Some ''dune'') (Some ''t'') False) =
     (0, [EvConnect, EvQuery (TableNamed ''dune'' ''dune'' ''t''),
          EvDropCall ''dune'' ''t'' ''BASE TABLE'', EvDropReturn True, EvClose]) \<and>
   metastore (sample_world [] EOFError) (TablesLike ''dune'' ''dune__tmp_%'') = Inr [] \<and>
   main (sample_world [] EOFError) (sample_args Dev None None True) =
     (0, [EvConnect, EvQuery (TablesLike ''dune'' ''dune__tmp_%''), EvClose])"
proof -
  have e: "main (sample_world [] EOFError) (sample_args Dev None None True) =
     (0, [EvConnect, EvQuery (TablesLike ''dune'' ''dune__tmp_%''), EvClose])"
    by (simp add: run_defs)
  have m: "metastore (sample_world one_row EOFError) (TableNamed ''dune'' ''dune'' ''t'') = Inr one_row"
    "metastore (sample_world [] EOFError) (TablesLike ''dune'' ''dune__tmp_%'') = Inr []"
    by (simp_all add: sample_world_def)
  have a: "arg_target (sample_args Prod (Some ''dune'') (Some ''t'') True) = Prod"
    "arg_execute (sample_args Prod (Some ''dune'') (Some ''t'') True)"
    "\<not> arg_execute (sample_args Prod (Some ''dune'') (Some ''t'') False)"
    by (simp_all add: sample_args_def)
  from prompt_only_for_prod_execute_nonempty
         [of "sample_world one_row (Line (ustr ''no''))" "sample_args Prod (Some ''dune'') (Some ''t'') True"
             "TableNamed ''dune'' ''dune'' ''t''" one_row]
       prompt_only_for_prod_execute_nonempty
         [of "sample_world one_row EOFError" "sample_args Prod (Some ''dune'') (Some ''t'') False"
             "TableNamed ''dune'' ''dune'' ''t''" one_row]
       prompt_only_for_prod_execute_nonempty
         [of "sample_world [] EOFError" "sample_args Dev None None True"
             "TablesLike ''dune'' ''dune__tmp_%''" "[]"]
       run_prod_no run_prod_dry e m a
  show ?thesis by simp
qed

text \<open>
  C10. When \<open>main\<close> asks the metastore for a specific table and the answer is the empty
  list, it returns 0, and the trace is the connection, the query and the closing of the
  connection: \<open>drop_table_or_view\<close> is not called. It asks for the specific table
  whenever \<open>--table\<close> and \<open>--schema\<close> are given, non-empty, and the connection is
  established.
\<close>

theorem table_not_found_exits_zero:
  "(EvQuery (TableNamed catalog schema table_name) \<in> set (snd (main w a)) \<and>
    metastore w (TableNamed catalog schema table_name) = Inr [] \<longrightarrow>
      main w a = (0, [EvConnect, EvQuery (TableNamed catalog schema table_name), EvClose])) \<and>
   (arg_table a = Some t \<and> t \<noteq> [] \<and> arg_schema a = Some s \<and> s \<noteq> [] \<and>
    truthy (py_or (arg_api_key a) (env_api_key w)) \<and> \<not> connect_raises w \<longrightarrow>
      EvQuery (TableNamed ''dune'' s t) \<in> set (snd (main w a)))"
proof (rule conjI; rule impI)
  assume h: "EvQuery (TableNamed catalog schema table_name) \<in> set (snd (main w a)) \<and>
    metastore w (TableNamed catalog schema table_name) = Inr []"
  then show "main w a = (0, [EvConnect, EvQuery (TableNamed catalog schema table_name), EvClose])"
    using main_empty_listing[of "TableNamed catalog schema table_name" w a] by blast
next
  assume h: "arg_table a = Some t \<and> t \<noteq> [] \<and> arg_schema a = Some s \<and> s \<noteq> [] \<and>
    truthy (py_or (arg_api_key a) (env_api_key w)) \<and> \<not> connect_raises w"
  then have r: "\<not> rejected a" by (simp add: rejected_def)
  from h have q: "main_query w a = TableNamed ''dune'' s t"
    by (simp add: main_query_def the_query_def)
  from main_issues_query[OF r, of w] h q
  show "EvQuery (TableNamed ''dune'' s t) \<in> set (snd (main w a))" by simp
qed

theorem table_not_found_exits_zero_witness:
  "arg_table (sample_args Prod (Some ''dune'') (Some ''t'') True) = Some ''t'' \<and> ''t'' \<noteq> [] \<and>
   arg_schema (sample_args Prod (Some ''dune'') (Some ''t'') True) = Some ''dune'' \<and> ''dune'' \<noteq> [] \<and>
   truthy (py_or (arg_api_key (sample_args Prod (Some ''dune'') (Some ''t'') True))
                 (env_api_key (sample_world [] EOFError))) \<and>
   \<not> connect_raises (sample_world [] EOFError) \<and>
   metastore (sample_world [] EOFError) (TableNamed ''dune'' ''dune'' ''t'') = Inr [] \<and>
   EvQuery (TableNamed ''dune'' ''dune'' ''t'')
     \<in> set (snd (main (sample_world [] EOFError) (sample_args Prod (Some ''dune'') (Some ''t'') True))) \<and>
   main (sample_world [] EOFError) (sample_args Prod (Some ''dune'') (Some ''t'') True) =
     (0, [EvConnect, EvQuery (TableNamed ''dune'' ''dune'' ''t''), EvClose])"
proof -
  have h: "arg_table (sample_args Prod (Some ''dune'') (Some ''t'') True) = Some ''t''"
    "arg_schema (sample_args Prod (Some ''dune'') (Some ''t'') True) = Some ''dune''"
    "truthy (py_or (arg_api_key (sample_args Prod (Some ''dune'') (Some ''t'') True))
                 (env_api_key (sample_world [] EOFError)))"
    "\<not> connect_raises (sample_world [] EOFError)"
    "metastore (sample_world [] EOFError) (TableNamed ''dune'' ''dune'' ''t'') = Inr []"
    by (simp_all add: sample_args_def sample_world_def py_or_def)
  from table_not_found_exits_zero
         [of "''dune''" "''dune''" "''t''" "sample_world [] EOFError"
             "sample_args Prod (Some ''dune'') (Some ''t'') True" "''t''" "''dune''"] h
  show ?thesis by simp
qed

end
